theory Spec2Isabelle
  imports Main "HOL-Library.Word"
begin

unbundle bit_operations_syntax

section \<open>JavaScript values used by \<open>QRGeneration\<close>\<close>

text \<open>
  A JavaScript string is a sequence of UTF-16 code units: \<open>.length\<close> counts code units
  and \<open>charCodeAt\<close> reads one. A constructor argument that the caller leaves out is
  \<open>undefined\<close>; it is modelled as \<open>None\<close>, a string argument as \<open>Some s\<close>.
\<close>

type_synonym jsstring = "16 word list"

text \<open>A string literal of the source, as code units (the literals are all ASCII).\<close>

definition str :: "string \<Rightarrow> jsstring" where
  "str s = map (\<lambda>c. of_nat (of_char c)) s"

text \<open>
  The exceptions the class can raise: the \<open>Error\<close> thrown by \<open>#formatLength\<close>, which carries
  the offending length in its message, and the \<open>TypeError\<close> of calling \<open>.toString()\<close> on
  \<open>undefined\<close>.
\<close>

datatype error = LengthOutOfRange nat | TypeError

text \<open>Sequencing of calls that may throw: the first exception ends the evaluation.\<close>

definition bind :: "error + 'a \<Rightarrow> ('a \<Rightarrow> error + 'b) \<Rightarrow> error + 'b" where
  "bind m f = (case m of Inl e \<Rightarrow> Inl e | Inr x \<Rightarrow> f x)"

text \<open>\<open>value.toString()\<close> on an optional string.\<close>

definition toString :: "jsstring option \<Rightarrow> error + jsstring" where
  "toString v = (case v of None \<Rightarrow> Inl TypeError | Some s \<Rightarrow> Inr s)"

text \<open>The string that \<open>+\<close> concatenates for an optional string operand.\<close>

definition concatOperand :: "jsstring option \<Rightarrow> jsstring" where
  "concatOperand v = (case v of None \<Rightarrow> str ''undefined'' | Some s \<Rightarrow> s)"

text \<open>Truthiness of an optional string: \<open>undefined\<close> and \<open>""\<close> are falsy.\<close>

definition truthy :: "jsstring option \<Rightarrow> bool" where
  "truthy v = (case v of None \<Rightarrow> False | Some s \<Rightarrow> s \<noteq> [])"

text \<open>
  \<open>Number.prototype.toString(radix)\<close> on an integer: the digits \<open>0-9a-z\<close>, most significant
  first, no leading zero, a minus sign before a negative number.
\<close>

definition digitChar :: "nat \<Rightarrow> 16 word" where
  "digitChar d = (if d < 10 then of_nat (48 + d) else of_nat (87 + d))"

function digitsRadix :: "nat \<Rightarrow> nat \<Rightarrow> jsstring" where
  "digitsRadix b n =
     (if n < b \<or> b < 2 then [digitChar n]
      else digitsRadix b (n div b) @ [digitChar (n mod b)])"
  by pat_completeness auto
termination
  by (relation "measure (\<lambda>(b, n). n)") auto

declare digitsRadix.simps [simp del]

definition numberToString :: "nat \<Rightarrow> int \<Rightarrow> jsstring" where
  "numberToString radix i =
     (if i < 0 then 0x2D # digitsRadix radix (nat (- i)) else digitsRadix radix (nat i))"

text \<open>\<open>s.padStart(n, c)\<close> with a one-character pad string.\<close>

definition padStart :: "nat \<Rightarrow> 16 word \<Rightarrow> jsstring \<Rightarrow> jsstring" where
  "padStart n c s = replicate (n - length s) c @ s"

section \<open>The constants of the class\<close>

definition PAYLOAD_FORMAT :: jsstring where "PAYLOAD_FORMAT = str ''000201''"
definition PIM_STATIC :: jsstring where "PIM_STATIC = str ''010211''"
definition PIM_DYNAMIC :: jsstring where "PIM_DYNAMIC = str ''010212''"
definition CURRENCY :: jsstring where "CURRENCY = str ''5303704''"
definition COUNTRY :: jsstring where "COUNTRY = str ''5802VN''"
definition CRC_ID :: jsstring where "CRC_ID = str ''6304''"
definition ACQUIRER_ID :: jsstring where "ACQUIRER_ID = str ''0006''"
definition MERCHANT_ID :: jsstring where "MERCHANT_ID = str ''01''"
definition BENEFICIARY_ORG_ID :: jsstring where "BENEFICIARY_ORG_ID = str ''01''"
definition DVCNTT_ID :: jsstring where "DVCNTT_ID = str ''38''"
definition AMOUNT_ID :: jsstring where "AMOUNT_ID = str ''54''"
definition ADDITIONAL_DATA_ID :: jsstring where "ADDITIONAL_DATA_ID = str ''62''"
definition BILL_NUMBER_ID :: jsstring where "BILL_NUMBER_ID = str ''01''"
definition PURPOSE_ID :: jsstring where "PURPOSE_ID = str ''08''"
definition GUID :: jsstring where "GUID = str ''0010A000000727''"
definition SERVICE_ACCOUNT :: jsstring where "SERVICE_ACCOUNT = str ''0208QRIBFTTA''"
definition SERVICE_CARD :: jsstring where "SERVICE_CARD = str ''0208QRIBFTTC''"
definition BILL_PREFIX :: jsstring where "BILL_PREFIX = str ''NAPAS''"

section \<open>Length formatter and TLV builder\<close>

text \<open>
  \<open>#formatLength(data)\<close>: the length of \<open>data.toString()\<close>, rejected outside 1..99, else in
  decimal padded to two characters.
\<close>

definition formatLength :: "jsstring option \<Rightarrow> error + jsstring" where
  "formatLength data =
     bind (toString data) (\<lambda>s.
       let n = length s in
       if n < 1 \<or> n > 99 then Inl (LengthOutOfRange n)
       else Inr (padStart 2 0x30 (numberToString 10 (int n))))"

text \<open>\<open>#buildTLV(id, value)\<close>: \<open>id + this.#formatLength(value) + value\<close>.\<close>

definition buildTLV :: "jsstring \<Rightarrow> jsstring option \<Rightarrow> error + jsstring" where
  "buildTLV ident v =
     bind (formatLength v) (\<lambda>len. Inr (ident @ len @ concatOperand v))"

section \<open>CRC16 calculator\<close>

text \<open>
  \<open>for (const char of data)\<close> runs the string iterator, which yields code points: a high
  surrogate followed by a low surrogate is one element of two code units, any other code
  unit is an element of its own.
\<close>

definition isHighSurrogate :: "16 word \<Rightarrow> bool" where
  "isHighSurrogate u = (0xD800 \<le> u \<and> u \<le> 0xDBFF)"

definition isLowSurrogate :: "16 word \<Rightarrow> bool" where
  "isLowSurrogate u = (0xDC00 \<le> u \<and> u \<le> 0xDFFF)"

fun stringIterator :: "jsstring \<Rightarrow> jsstring list" where
  "stringIterator [] = []"
| "stringIterator [u] = [[u]]"
| "stringIterator (u # v # rest) =
     (if isHighSurrogate u \<and> isLowSurrogate v then [u, v] # stringIterator rest
      else [u] # stringIterator (v # rest))"

text \<open>\<open>char.charCodeAt(0)\<close> on an element of the iteration (never empty), as a number.\<close>

definition charCodeAt0 :: "jsstring \<Rightarrow> 32 word" where
  "charCodeAt0 ch = (case ch of [] \<Rightarrow> 0 | u # _ \<Rightarrow> ucast u)"

text \<open>
  The bitwise operators of JavaScript work on 32-bit integers, so \<open>crc\<close> is a 32-bit word.
  One round of the inner loop:
  \<open>crc = (crc & 0x8000) ? ((crc << 1) ^ polynomial) : (crc << 1); crc &= 0xFFFF\<close>.
\<close>

definition polynomial :: "32 word" where
  "polynomial = 0x1021"

definition crcRound :: "32 word \<Rightarrow> 32 word" where
  "crcRound crc =
     (if crc AND 0x8000 \<noteq> 0 then (push_bit 1 crc) XOR polynomial else push_bit 1 crc) AND 0xFFFF"

text \<open>\<open>for (let i = 0; i < 8; i++)\<close>.\<close>

function crcInner :: "nat \<Rightarrow> 32 word \<Rightarrow> 32 word" where
  "crcInner i crc = (if i < 8 then crcInner (i + 1) (crcRound crc) else crc)"
  by pat_completeness auto
termination
  by (relation "measure (\<lambda>(i, crc). 8 - i)") auto

declare crcInner.simps [simp del]

text \<open>The body of the outer loop for one element of the iteration.\<close>

definition crcChar :: "32 word \<Rightarrow> jsstring \<Rightarrow> 32 word" where
  "crcChar crc ch = crcInner 0 (crc XOR push_bit 8 (charCodeAt0 ch))"

text \<open>
  \<open>toUpperCase\<close> on the output of \<open>toString(16)\<close>, whose characters are \<open>0-9a-f\<close> (and a
  minus sign): the letters \<open>a-z\<close> move to \<open>A-Z\<close>, every other ASCII character stays.
\<close>

definition toUpperCaseAscii :: "jsstring \<Rightarrow> jsstring" where
  "toUpperCaseAscii s = map (\<lambda>u. if 0x61 \<le> u \<and> u \<le> 0x7A then u - 0x20 else u) s"

text \<open>\<open>#calculateCRC16(data)\<close>.\<close>

definition calculateCRC16 :: "jsstring \<Rightarrow> jsstring" where
  "calculateCRC16 data =
     (let crc = foldl crcChar 0xFFFF (stringIterator data)
      in padStart 4 0x30 (toUpperCaseAscii (numberToString 16 (sint crc))))"

section \<open>The instance and its constructor\<close>

record QRGeneration =
  bankBin :: "jsstring option"
  accNo :: "jsstring option"
  initType :: jsstring
  isAccount :: bool
  amount :: "jsstring option"
  desc :: "jsstring option"
  billNumber :: jsstring

text \<open>
  \<open>#generateBillNumber()\<close>; \<open>r\<close> is the value that \<open>randomInt(10000)\<close> returned.
\<close>

definition generateBillNumber :: "nat \<Rightarrow> jsstring" where
  "generateBillNumber r = BILL_PREFIX @ padStart 4 0x30 (numberToString 10 (int r))"

text \<open>
  The constructor. \<open>toUpperCase\<close> is the built-in \<open>String.prototype.toUpperCase\<close>, taken as a
  parameter; \<open>initType?.toUpperCase() || "STATIC"\<close> falls back to \<open>"STATIC"\<close> when the
  argument is \<open>undefined\<close> or the upper-cased string is empty. \<open>isAccount\<close> is read for its
  truthiness only.
\<close>

definition "constructor" ::
  "(jsstring \<Rightarrow> jsstring) \<Rightarrow> nat \<Rightarrow> jsstring option \<Rightarrow> jsstring option \<Rightarrow> jsstring option \<Rightarrow>
   bool \<Rightarrow> jsstring option \<Rightarrow> jsstring option \<Rightarrow> QRGeneration" where
  "constructor toUpperCase r bankBin' accNo' initType' isAccount' amount' desc' =
     \<lparr> bankBin = bankBin',
       accNo = accNo',
       initType = (case initType' of None \<Rightarrow> str ''STATIC''
                   | Some s \<Rightarrow> if toUpperCase s = [] then str ''STATIC'' else toUpperCase s),
       isAccount = isAccount',
       amount = amount',
       desc = desc',
       billNumber = generateBillNumber r \<rparr>"

section \<open>Payload segments\<close>

definition getPointOfInitiation :: "QRGeneration \<Rightarrow> jsstring" where
  "getPointOfInitiation q = (if initType q = str ''STATIC'' then PIM_STATIC else PIM_DYNAMIC)"

definition getMerchantInfo :: "QRGeneration \<Rightarrow> error + jsstring" where
  "getMerchantInfo q =
     (let acquirerData = ACQUIRER_ID @ concatOperand (bankBin q) in
      bind (buildTLV MERCHANT_ID (accNo q)) (\<lambda>merchantData.
        Inr (acquirerData @ merchantData)))"

definition getServiceType :: "QRGeneration \<Rightarrow> jsstring" where
  "getServiceType q = (if isAccount q then SERVICE_ACCOUNT else SERVICE_CARD)"

definition getMerchantAccountInfo :: "QRGeneration \<Rightarrow> error + jsstring" where
  "getMerchantAccountInfo q =
     bind (getMerchantInfo q) (\<lambda>merchantInfo.
     bind (formatLength (Some merchantInfo)) (\<lambda>len.
       let fullData = GUID @ BENEFICIARY_ORG_ID @ len @ merchantInfo @ getServiceType q
       in buildTLV DVCNTT_ID (Some fullData)))"

definition getTransactionAmount :: "QRGeneration \<Rightarrow> error + jsstring" where
  "getTransactionAmount q =
     (if initType q = str ''DYNAMIC'' \<and> truthy (amount q)
      then buildTLV AMOUNT_ID (amount q)
      else Inr [])"

definition getAdditionalData :: "QRGeneration \<Rightarrow> error + jsstring" where
  "getAdditionalData q =
     (if initType q \<noteq> str ''DYNAMIC'' then Inr []
      else
        bind (buildTLV BILL_NUMBER_ID (Some (billNumber q))) (\<lambda>billData.
        bind (buildTLV PURPOSE_ID (desc q)) (\<lambda>purposeData.
          buildTLV ADDITIONAL_DATA_ID (Some (billData @ purposeData)))))"

section \<open>Payload composer\<close>

text \<open>
  \<open>generateQR()\<close>. The operands of the concatenation are evaluated from left to right, so
  the first builder that throws decides the exception.
\<close>

definition generateQR :: "QRGeneration \<Rightarrow> error + jsstring" where
  "generateQR q =
     bind (getMerchantAccountInfo q) (\<lambda>merchantAccountInfo.
     bind (getTransactionAmount q) (\<lambda>transactionAmount.
     bind (getAdditionalData q) (\<lambda>additionalData.
       let qrData = PAYLOAD_FORMAT @ getPointOfInitiation q @ merchantAccountInfo @ CURRENCY @
                    transactionAmount @ COUNTRY @ additionalData @ CRC_ID;
           crc = calculateCRC16 qrData
       in Inr (qrData @ crc))))"

record Components =
  payloadFormat :: jsstring
  pointOfInitiation :: jsstring
  merchantAccount :: jsstring
  currency :: jsstring
  c_amount :: jsstring
  country :: jsstring
  additionalData :: jsstring
  c_billNumber :: jsstring

text \<open>
  \<open>getComponents()\<close>; the fields \<open>amount\<close> and \<open>billNumber\<close> of the returned object are
  \<open>c_amount\<close> and \<open>c_billNumber\<close> here, the names being taken by the instance.
\<close>

definition getComponents :: "QRGeneration \<Rightarrow> error + Components" where
  "getComponents q =
     bind (getMerchantAccountInfo q) (\<lambda>merchantAccountInfo.
     bind (getTransactionAmount q) (\<lambda>transactionAmount.
     bind (getAdditionalData q) (\<lambda>additionalData'.
       Inr \<lparr> payloadFormat = PAYLOAD_FORMAT,
             pointOfInitiation = getPointOfInitiation q,
             merchantAccount = merchantAccountInfo,
             currency = CURRENCY,
             c_amount = transactionAmount,
             country = COUNTRY,
             additionalData = additionalData',
             c_billNumber = billNumber q \<rparr>)))"

section \<open>Reference definitions for the properties\<close>

text \<open>A length below 100 as a two-digit, zero-padded decimal string.\<close>

definition twoDigits :: "nat \<Rightarrow> jsstring" where
  "twoDigits n = [of_nat (48 + n div 10), of_nat (48 + n mod 10)]"

text \<open>A number below 10000 as a four-digit, zero-padded decimal string.\<close>

definition fourDigits :: "nat \<Rightarrow> jsstring" where
  "fourDigits n = [of_nat (48 + n div 1000), of_nat (48 + n div 100 mod 10),
                   of_nat (48 + n div 10 mod 10), of_nat (48 + n mod 10)]"

definition isDecimalDigit :: "16 word \<Rightarrow> bool" where
  "isDecimalDigit u = (0x30 \<le> u \<and> u \<le> 0x39)"

text \<open>A 16-bit value as four upper-case hexadecimal digits, zero-padded.\<close>

definition hexDigitUpper :: "nat \<Rightarrow> 16 word" where
  "hexDigitUpper d = (if d < 10 then of_nat (48 + d) else of_nat (55 + d))"

definition hex4 :: "nat \<Rightarrow> jsstring" where
  "hex4 n = [hexDigitUpper (n div 4096 mod 16), hexDigitUpper (n div 256 mod 16),
             hexDigitUpper (n div 16 mod 16), hexDigitUpper (n mod 16)]"

text \<open>
  The checksum as the specification words it, on natural numbers: one round shifts left by
  one, XORs with \<open>0x1021\<close> when bit 15 was set, and masks to 16 bits; a character XORs
  \<open>code << 8\<close> into the state and runs eight rounds; the state starts at \<open>0xFFFF\<close> and
  there is no final XOR.
\<close>

definition specRound :: "nat \<Rightarrow> nat" where
  "specRound c =
     (if bit c 15 then (push_bit 1 c XOR 0x1021) mod 2 ^ 16 else push_bit 1 c mod 2 ^ 16)"

definition specChar :: "nat \<Rightarrow> nat \<Rightarrow> nat" where
  "specChar c code = (specRound ^^ 8) (c XOR push_bit 8 code)"

definition specCRC :: "nat list \<Rightarrow> nat" where
  "specCRC codes = foldl specChar 0xFFFF codes"

text \<open>
  The code units of a string that enter the checksum: every code unit in order, except
  that a low surrogate directly after a high surrogate is left out. A string has a
  surrogate pair when a high surrogate is directly followed by a low surrogate; the pair
  encodes one code point above \<open>0xFFFF\<close>.
\<close>

fun readCodes :: "jsstring \<Rightarrow> nat list" where
  "readCodes [] = []"
| "readCodes [u] = [unat u]"
| "readCodes (u # v # rest) =
     (if 0xD800 \<le> unat u \<and> unat u \<le> 0xDBFF \<and> 0xDC00 \<le> unat v \<and> unat v \<le> 0xDFFF
      then unat u # readCodes rest
      else unat u # readCodes (v # rest))"

fun hasSurrogatePair :: "jsstring \<Rightarrow> bool" where
  "hasSurrogatePair [] = False"
| "hasSurrogatePair [u] = False"
| "hasSurrogatePair (u # v # rest) =
     ((0xD800 \<le> unat u \<and> unat u \<le> 0xDBFF \<and> 0xDC00 \<le> unat v \<and> unat v \<le> 0xDFFF)
      \<or> hasSurrogatePair (v # rest))"

definition surrogatePairValue :: "16 word \<Rightarrow> 16 word \<Rightarrow> nat" where
  "surrogatePairValue hi lo = 0x10000 + (unat hi - 0xD800) * 0x400 + (unat lo - 0xDC00)"

text \<open>The last \<open>k\<close> digits of \<open>n\<close> in radix \<open>b\<close>, most significant first.\<close>

fun fixedDigits :: "nat \<Rightarrow> nat \<Rightarrow> nat \<Rightarrow> jsstring" where
  "fixedDigits b 0 n = []"
| "fixedDigits b (Suc k) n = fixedDigits b k (n div b) @ [digitChar (n mod b)]"

text \<open>
  The payload before the checksum as the specification lists it: format indicator, point
  of initiation, merchant account info, currency, amount, country, additional data and the
  literal checksum tag with its length.
\<close>

definition specBody :: "jsstring \<Rightarrow> jsstring \<Rightarrow> jsstring \<Rightarrow> jsstring \<Rightarrow> jsstring" where
  "specBody pim merchant amt additional =
     str ''000201'' @ pim @ merchant @ str ''5303704'' @ amt @ str ''5802VN'' @ additional @
     str ''6304''"

section \<open>Sample instances\<close>

text \<open>The usage example of the source: \<open>new QRGeneration("970407", "2543663452")\<close>.\<close>

definition exampleStatic :: QRGeneration where
  "exampleStatic =
     constructor toUpperCaseAscii 42 (Some (str ''970407'')) (Some (str ''2543663452''))
       None False None None"

definition exampleDynamic :: QRGeneration where
  "exampleDynamic =
     constructor toUpperCaseAscii 42 (Some (str ''970407'')) (Some (str ''2543663452''))
       (Some (str ''dynamic'')) True (Some (str ''50000'')) (Some (str ''Thanh toan''))"

definition exampleDynamicBody :: jsstring where
  "exampleDynamicBody =
     str ''00020101021238540010A00000072701240006970407011025436634520208QRIBFTTA''
     @ str ''53037045405500005802VN62270109NAPAS00420810Thanh toan6304''"

text \<open>A dynamic instance whose description has 101 characters, and one whose description is empty.\<close>

definition longDescription :: QRGeneration where
  "longDescription =
     constructor toUpperCaseAscii 42 (Some (str ''970407'')) (Some (str ''2543663452''))
       (Some (str ''DYNAMIC'')) True (Some (str ''50000'')) (Some (replicate 101 0x41))"

definition emptyDescription :: QRGeneration where
  "emptyDescription =
     constructor toUpperCaseAscii 42 (Some (str ''970407'')) (Some (str ''2543663452''))
       (Some (str ''DYNAMIC'')) True (Some (str ''50000'')) (Some (str ''''))"

text \<open>A dynamic instance whose amount is the string \<open>"0"\<close>.\<close>

definition zeroAmount :: QRGeneration where
  "zeroAmount =
     constructor toUpperCaseAscii 42 (Some (str ''970407'')) (Some (str ''2543663452''))
       (Some (str ''DYNAMIC'')) True (Some (str ''0'')) (Some (str ''Thanh toan''))"

text \<open>Instances whose initiation type argument is \<open>"dynamicc"\<close> and \<open>""\<close>.\<close>

definition misspeltInitType :: QRGeneration where
  "misspeltInitType =
     constructor toUpperCaseAscii 42 (Some (str ''970407'')) (Some (str ''2543663452''))
       (Some (str ''dynamicc'')) True (Some (str ''50000'')) (Some (str ''Thanh toan''))"

definition emptyInitType :: QRGeneration where
  "emptyInitType =
     constructor toUpperCaseAscii 42 (Some (str ''970407'')) (Some (str ''2543663452''))
       (Some (str '''')) True (Some (str ''50000'')) (Some (str ''Thanh toan''))"

section \<open>Basic facts\<close>

lemma bind_Inl [simp]: "bind (Inl e) f = Inl e"
  by (simp add: bind_def)

lemma bind_Inr [simp]: "bind (Inr x) f = f x"
  by (simp add: bind_def)

lemma bind_eq_Inr: "(bind m f = Inr y) = (\<exists>x. m = Inr x \<and> f x = Inr y)"
  by (cases m) simp_all

lemma bind_eq_Inl: "(bind m f = Inl e) = (m = Inl e \<or> (\<exists>x. m = Inr x \<and> f x = Inl e))"
  by (cases m) simp_all

lemma replicate_numeral: "replicate (numeral k) x = x # replicate (pred_numeral k) x"
  by (simp add: numeral_eq_Suc)

lemmas constants =
  PAYLOAD_FORMAT_def PIM_STATIC_def PIM_DYNAMIC_def CURRENCY_def COUNTRY_def CRC_ID_def
  ACQUIRER_ID_def MERCHANT_ID_def BENEFICIARY_ORG_ID_def DVCNTT_ID_def AMOUNT_ID_def
  ADDITIONAL_DATA_ID_def BILL_NUMBER_ID_def PURPOSE_ID_def GUID_def SERVICE_ACCOUNT_def
  SERVICE_CARD_def BILL_PREFIX_def

subsection \<open>Rendering numbers\<close>

lemma fixedDigits_zero: "fixedDigits b k 0 = replicate k (digitChar 0)"
  by (induction k) (simp_all add: replicate_append_same)

lemma padStart_digitsRadix:
  "2 \<le> b \<Longrightarrow> n < b ^ Suc k \<Longrightarrow>
     padStart (Suc k) (digitChar 0) (digitsRadix b n) = fixedDigits b (Suc k) n
     \<and> length (digitsRadix b n) \<le> Suc k"
proof (induction k arbitrary: n)
  case 0
  then have "digitsRadix b n = [digitChar n]" by (simp add: digitsRadix.simps [of b n])
  with 0 show ?case by (simp add: padStart_def)
next
  case (Suc k)
  show ?case
  proof (cases "n < b")
    case True
    then have "digitsRadix b n = [digitChar n]" by (simp add: digitsRadix.simps [of b n])
    with True show ?thesis
      by (simp add: padStart_def fixedDigits_zero replicate_append_same)
  next
    case False
    with Suc.prems have d: "digitsRadix b n = digitsRadix b (n div b) @ [digitChar (n mod b)]"
      by (simp add: digitsRadix.simps [of b n])
    from Suc.prems have "n < b ^ Suc k * b" by (simp add: mult.commute)
    then have "n div b < b ^ Suc k" using Suc.prems(1) by (simp add: less_mult_imp_div_less)
    from Suc.IH [OF Suc.prems(1) this]
    have ih: "padStart (Suc k) (digitChar 0) (digitsRadix b (n div b)) = fixedDigits b (Suc k) (n div b)"
      and len: "length (digitsRadix b (n div b)) \<le> Suc k" by simp_all
    from len have "Suc (Suc k) - length (digitsRadix b n) = Suc k - length (digitsRadix b (n div b))"
      by (simp add: d)
    then have "padStart (Suc (Suc k)) (digitChar 0) (digitsRadix b n)
        = padStart (Suc k) (digitChar 0) (digitsRadix b (n div b)) @ [digitChar (n mod b)]"
      by (simp add: padStart_def d)
    with ih len show ?thesis by (simp add: d)
  qed
qed

lemma two_eq: "(2::nat) = Suc (Suc 0)"
  by simp

lemma four_eq: "(4::nat) = Suc (Suc (Suc (Suc 0)))"
  by simp

lemma fixedDigits2:
  "fixedDigits b 2 n = [digitChar (n div b mod b), digitChar (n mod b)]"
  unfolding two_eq by simp

lemma fixedDigits4:
  "fixedDigits b 4 n = [digitChar (n div b div b div b mod b), digitChar (n div b div b mod b),
                         digitChar (n div b mod b), digitChar (n mod b)]"
  unfolding four_eq by simp

lemma padStart2_digits:
  assumes "2 \<le> b" and "n < b * b"
  shows "padStart 2 (digitChar 0) (digitsRadix b n) = fixedDigits b 2 n"
proof -
  have "n < b ^ Suc (Suc 0)" using assms(2) by simp
  from padStart_digitsRadix [OF assms(1) this] show ?thesis
    unfolding two_eq by (rule conjunct1)
qed

lemma padStart4_digits:
  assumes "2 \<le> b" and "n < b * (b * (b * b))"
  shows "padStart 4 (digitChar 0) (digitsRadix b n) = fixedDigits b 4 n"
proof -
  have "n < b ^ Suc (Suc (Suc (Suc 0)))" using assms(2) by simp
  from padStart_digitsRadix [OF assms(1) this] show ?thesis
    unfolding four_eq by (rule conjunct1)
qed

lemma padStart2_decimal:
  assumes "n < 100"
  shows "padStart 2 0x30 (numberToString 10 (int n)) = twoDigits n"
proof -
  have "padStart 2 (digitChar 0) (digitsRadix 10 n) = fixedDigits 10 2 n"
    using assms by (intro padStart2_digits) simp_all
  moreover have "n div 10 < 10" using assms by simp
  ultimately show ?thesis
    by (simp add: numberToString_def twoDigits_def digitChar_def fixedDigits2)
qed

lemma padStart4_decimal:
  assumes "n < 10000"
  shows "padStart 4 0x30 (numberToString 10 (int n)) = fourDigits n"
proof -
  have "padStart 4 (digitChar 0) (digitsRadix 10 n) = fixedDigits 10 4 n"
    using assms by (intro padStart4_digits) simp_all
  moreover have "n div 10 div 10 div 10 < 10" using assms by simp
  moreover have "n div 10 div 10 = n div 100" "n div 10 div 10 div 10 = n div 1000"
    by (simp_all add: div_mult2_eq [symmetric])
  ultimately show ?thesis
    by (simp add: numberToString_def fourDigits_def digitChar_def fixedDigits4)
qed

lemma toUpper_hexdigit: "\<forall>d \<in> {0..<16}. toUpperCaseAscii [digitChar d] = [hexDigitUpper d]"
  by code_simp

lemma padStart_toUpperCaseAscii:
  "padStart k (digitChar 0) (toUpperCaseAscii s) = toUpperCaseAscii (padStart k (digitChar 0) s)"
  by (simp add: padStart_def toUpperCaseAscii_def digitChar_def)

lemma padStart4_hex:
  assumes "n < 65536"
  shows "padStart 4 0x30 (toUpperCaseAscii (numberToString 16 (int n))) = hex4 n"
proof -
  have up: "toUpperCaseAscii [digitChar (d mod 16)] = [hexDigitUpper (d mod 16)]" for d
    using toUpper_hexdigit by simp
  have up4: "toUpperCaseAscii [a, b, c, d]
      = toUpperCaseAscii [a] @ toUpperCaseAscii [b] @ toUpperCaseAscii [c] @ toUpperCaseAscii [d]"
    for a b c d by (simp add: toUpperCaseAscii_def)
  have "padStart 4 (digitChar 0) (digitsRadix 16 n) = fixedDigits 16 4 n"
    using assms by (intro padStart4_digits) simp_all
  then have "padStart 4 (digitChar 0) (toUpperCaseAscii (digitsRadix 16 n))
      = toUpperCaseAscii (fixedDigits 16 4 n)"
    by (simp only: padStart_toUpperCaseAscii)
  also have "\<dots> = [hexDigitUpper (n div 16 div 16 div 16 mod 16),
      hexDigitUpper (n div 16 div 16 mod 16), hexDigitUpper (n div 16 mod 16),
      hexDigitUpper (n mod 16)]"
    by (simp only: fixedDigits4 up4 up append_Cons append_Nil)
  also have "\<dots> = hex4 n"
    by (simp add: hex4_def div_mult2_eq [symmetric])
  finally show ?thesis by (simp add: numberToString_def digitChar_def)
qed

subsection \<open>The checksum loop on words and on numbers\<close>

lemma test_bit15: "(w AND 0x8000 \<noteq> 0) = bit (unat w) 15" for w :: "32 word"
proof -
  have "(0x8000 :: 32 word) = 2 ^ 15" by simp
  then have "(w AND 0x8000 = 0) = (\<not> bit w 15)"
    by (simp only: and_exp_eq_0_iff_not_bit)
  then show ?thesis by (simp add: bit_unsigned_iff)
qed

lemma unat_mask16: "unat (w AND 0xFFFF) = unat w mod 2 ^ 16" for w :: "32 word"
proof -
  have "(0xFFFF :: 32 word) = mask 16" by (simp add: mask_eq_exp_minus_1)
  then have "w AND 0xFFFF = take_bit 16 w" by (simp only: take_bit_eq_mask)
  then have "unat (w AND 0xFFFF) = unat (take_bit 16 w)" by (rule arg_cong)
  also have "\<dots> = take_bit 16 (unat w)" by (simp only: unsigned_take_bit_eq)
  also have "\<dots> = unat w mod 2 ^ 16" by (simp only: take_bit_eq_mod)
  finally show ?thesis .
qed

lemma unat_crcRound: "unat (crcRound w) = specRound (unat w)"
proof -
  have sh: "unat (push_bit 1 w) mod 2 ^ 16 = push_bit 1 (unat w) mod 2 ^ 16"
    apply (simp only: unsigned_push_bit_eq flip: take_bit_eq_mod)
    apply simp
    done
  have xo: "unat (push_bit 1 w XOR 0x1021) mod 2 ^ 16 = (push_bit 1 (unat w) XOR 0x1021) mod 2 ^ 16"
    apply (simp only: unsigned_xor_eq unsigned_push_bit_eq flip: take_bit_eq_mod)
    apply (simp add: take_bit_xor)
    done
  show ?thesis
    unfolding crcRound_def specRound_def polynomial_def test_bit15
    by (simp only: unat_mask16 sh xo if_distrib [of "\<lambda>x. unat x mod 2 ^ 16"]
        if_distrib [of "\<lambda>x. x AND 0xFFFF"] if_distrib [of unat] split: if_splits)
qed

lemma crcInner_funpow: "crcInner i w = (crcRound ^^ (8 - i)) w"
proof (induction i w rule: crcInner.induct)
  case (1 i crc)
  show ?case
  proof (cases "i < 8")
    case True
    then have "8 - i = Suc (8 - (i + 1))" by simp
    then have "(crcRound ^^ (8 - i)) crc = (crcRound ^^ (8 - (i + 1))) (crcRound crc)"
      by (simp only: funpow_Suc_right o_apply)
    with True 1 show ?thesis by (simp add: crcInner.simps [of i crc])
  next
    case False
    then show ?thesis by (simp add: crcInner.simps [of i crc])
  qed
qed

lemma unat_crcRound_funpow: "unat ((crcRound ^^ n) w) = (specRound ^^ n) (unat w)"
  by (induction n) (simp_all add: unat_crcRound)

lemma unat_charCodeAt0_less: "unat (charCodeAt0 ch) < 2 ^ 16"
proof (cases ch)
  case Nil
  then show ?thesis by (simp add: charCodeAt0_def)
next
  case (Cons u rest)
  have "unat u < 2 ^ 16" using unsigned_less [of u] by simp
  moreover from this have "unat (ucast u :: 32 word) = unat u"
    by (simp add: unsigned_ucast_eq take_bit_nat_eq_self)
  ultimately show ?thesis using Cons by (simp add: charCodeAt0_def)
qed

lemma unat_crcChar: "unat (crcChar crc ch) = specChar (unat crc) (unat (charCodeAt0 ch))"
proof -
  have "push_bit 8 (unat (charCodeAt0 ch)) < 2 ^ 32"
    using unat_charCodeAt0_less [of ch] by (simp add: push_bit_eq_mult)
  then have "unat (push_bit 8 (charCodeAt0 ch)) = push_bit 8 (unat (charCodeAt0 ch))"
    by (simp add: unsigned_push_bit_eq take_bit_nat_eq_self)
  then show ?thesis
    by (simp add: crcChar_def specChar_def crcInner_funpow unat_crcRound_funpow unsigned_xor_eq)
qed

lemma unat_foldl_crcChar:
  "unat (foldl crcChar crc chs) = foldl specChar (unat crc) (map (\<lambda>ch. unat (charCodeAt0 ch)) chs)"
  by (induction chs arbitrary: crc) (simp_all add: unat_crcChar)

lemma specRound_less: "specRound c < 2 ^ 16"
  by (simp add: specRound_def)

lemma specChar_less: "specChar c code < 2 ^ 16"
proof -
  have "specChar c code = specRound ((specRound ^^ 7) (c XOR push_bit 8 code))"
    by (simp add: specChar_def eval_nat_numeral)
  then show ?thesis by (simp only: specRound_less)
qed

lemma foldl_specChar_less: "c < 2 ^ 16 \<Longrightarrow> foldl specChar c codes < 2 ^ 16"
proof (induction codes arbitrary: c)
  case Nil
  then show ?case by simp
next
  case (Cons a codes)
  have "foldl specChar (specChar c a) codes < 2 ^ 16"
    by (rule Cons.IH) (rule specChar_less)
  then show ?case by simp
qed

lemma specCRC_less: "specCRC codes < 2 ^ 16"
  unfolding specCRC_def by (rule foldl_specChar_less) simp

subsection \<open>Length formatter and TLV builder\<close>

lemma formatLength_Some:
  "formatLength (Some s) =
     (if length s < 1 \<or> 99 < length s then Inl (LengthOutOfRange (length s))
      else Inr (twoDigits (length s)))"
  by (simp add: formatLength_def toString_def padStart2_decimal)

lemma formatLength_None: "formatLength None = Inl TypeError"
  by (simp add: formatLength_def toString_def)

lemma buildTLV_Some:
  "buildTLV tag (Some s) =
     (if length s < 1 \<or> 99 < length s then Inl (LengthOutOfRange (length s))
      else Inr (tag @ twoDigits (length s) @ s))"
  by (simp add: buildTLV_def formatLength_Some concatOperand_def)

lemma buildTLV_None: "buildTLV tag None = Inl TypeError"
  by (simp add: buildTLV_def formatLength_None)

lemma buildTLV_fails_iff: "(buildTLV tag v = Inl e) = (formatLength v = Inl e)"
  by (cases "formatLength v") (simp_all add: buildTLV_def)

subsection \<open>The checksum\<close>

lemma sint_eq_unat:
  fixes w :: "32 word"
  assumes "unat w < 2 ^ 16"
  shows "sint w = int (unat w)"
proof -
  from assms have "unat w < 65536" by simp
  then have "int (unat w) < 2147483648" by linarith
  then have "uint w < 2 ^ 31" by simp
  moreover have "- (2 ^ 31) \<le> uint w"
  proof -
    have "0 \<le> uint w" by simp
    then have "- 2147483648 \<le> uint w" by linarith
    then show ?thesis by simp
  qed
  ultimately have "signed_take_bit 31 (uint w) = uint w"
    by (simp only: signed_take_bit_int_eq_self)
  then show ?thesis by (simp add: sint_uint)
qed

lemma unat_ucast_16_32: "unat (ucast u :: 32 word) = unat u" for u :: "16 word"
proof -
  have "unat u < 2 ^ 16" using unsigned_less [of u] by simp
  then show ?thesis by (simp add: unsigned_ucast_eq take_bit_nat_eq_self)
qed

lemma surrogate_ranges:
  "isHighSurrogate u = (0xD800 \<le> unat u \<and> unat u \<le> 0xDBFF)"
  "isLowSurrogate v = (0xDC00 \<le> unat v \<and> unat v \<le> 0xDFFF)"
  by (simp_all add: isHighSurrogate_def isLowSurrogate_def word_le_nat_alt)

lemma loop_readCodes:
  "map (\<lambda>ch. unat (charCodeAt0 ch)) (stringIterator s) = readCodes s"
  by (induction s rule: stringIterator.induct)
    (simp_all add: charCodeAt0_def unat_ucast_16_32 surrogate_ranges)

lemma readCodes_no_pair: "\<not> hasSurrogatePair s \<Longrightarrow> readCodes s = map unat s"
  by (induction s rule: readCodes.induct) auto

lemma sint_foldl_crcChar:
  "sint (foldl crcChar 0xFFFF (stringIterator s)) = int (specCRC (readCodes s))"
proof -
  let ?w = "foldl crcChar (0xFFFF :: 32 word) (stringIterator s)"
  have u: "unat ?w = specCRC (readCodes s)"
    by (simp add: unat_foldl_crcChar specCRC_def loop_readCodes)
  then have "unat ?w < 2 ^ 16" by (simp only: specCRC_less)
  then have "sint ?w = int (unat ?w)" by (rule sint_eq_unat)
  with u show ?thesis by simp
qed

lemma calculateCRC16_hex4: "calculateCRC16 s = hex4 (specCRC (readCodes s))"
proof -
  have "specCRC (readCodes s) < 65536" using specCRC_less [of "readCodes s"] by simp
  then show ?thesis
    by (simp add: calculateCRC16_def sint_foldl_crcChar padStart4_hex)
qed

lemma length_calculateCRC16: "length (calculateCRC16 s) = 4"
  by (simp add: calculateCRC16_hex4 hex4_def)

text \<open>One character of the reference computation, evaluated on words.\<close>

lemma specChar_word:
  assumes "code < 2 ^ 24"
  shows "specChar (unat w) code = unat (crcInner 0 (w XOR push_bit 8 (of_nat code)))"
proof -
  from assms have "code < 2 ^ 32"
    by (rule less_le_trans) simp
  then have c: "unat (of_nat code :: 32 word) = code"
    by (simp add: unat_of_nat take_bit_nat_eq_self)
  from assms have "push_bit 8 code < 2 ^ 32"
    by (simp add: push_bit_eq_mult)
  then have "unat (push_bit 8 (of_nat code :: 32 word)) = push_bit 8 code"
    by (simp add: unsigned_push_bit_eq c take_bit_nat_eq_self)
  then show ?thesis
    by (simp add: specChar_def crcInner_funpow unat_crcRound_funpow unsigned_xor_eq)
qed

lemmas word_eval = crcChar_def charCodeAt0_def crcInner.simps crcRound_def polynomial_def

lemma specCRC_code_units_D83D_DE00: "specCRC (map unat [0xD83D, 0xDE00 :: 16 word]) = 0x6EC6"
proof -
  have "unat (foldl crcChar 0xFFFF [[0xD83D], [0xDE00]])
      = foldl specChar (unat (0xFFFF :: 32 word))
          (map (\<lambda>ch. unat (charCodeAt0 ch)) [[0xD83D], [0xDE00]])"
    by (rule unat_foldl_crcChar)
  moreover have "foldl crcChar 0xFFFF [[0xD83D], [0xDE00]] = 0x6EC6"
    by (simp add: word_eval)
  ultimately show ?thesis
    by (simp add: specCRC_def charCodeAt0_def)
qed

lemma specCRC_code_point_1F600: "specCRC [0x1F600] = 0xE1F0"
proof -
  have "specChar (unat (0xFFFF :: 32 word)) 0x1F600
      = unat (crcInner 0 ((0xFFFF :: 32 word) XOR push_bit 8 (of_nat 0x1F600)))"
    by (rule specChar_word) simp
  moreover have "crcInner 0 ((0xFFFF :: 32 word) XOR push_bit 8 (of_nat 0x1F600)) = 0xE1F0"
    by (simp add: word_eval)
  ultimately show ?thesis
    by (simp add: specCRC_def)
qed

lemma hex4_values:
  "hex4 0x060E = str ''060E''" "hex4 0x6EC6 = str ''6EC6''" "hex4 0xE1F0 = str ''E1F0''"
  by (simp_all add: hex4_def hexDigitUpper_def str_def)

lemma hexDigitUpper_cases:
  "\<forall>d \<in> {0..<16}. hexDigitUpper d \<in> set (str ''0123456789ABCDEF'')"
  by code_simp

lemma hex4_chars: "set (hex4 n) \<subseteq> set (str ''0123456789ABCDEF'')"
proof -
  have "hexDigitUpper (d mod 16) \<in> set (str ''0123456789ABCDEF'')" for d
    using hexDigitUpper_cases by simp
  then show ?thesis by (simp add: hex4_def)
qed

section \<open>Properties of the generator\<close>

text \<open>
  C3, as the claim states it, fails on a surrogate pair. The \<open>for ... of\<close> loop takes the
  pair \<open>0xD83D 0xDE00\<close> (the code point \<open>0x1F600\<close>) as one character and \<open>charCodeAt(0)\<close>
  reads its first code unit only, so the result is \<open>"060E"\<close>. The algorithm of the claim
  over the two code units of the string gives \<open>"6EC6"\<close>, and over its one code point
  \<open>"E1F0"\<close>.
\<close>

theorem calculateCRC16_surrogate_pair:
  "calculateCRC16 [0xD83D, 0xDE00] = str ''060E''
   \<and> hex4 (specCRC (map unat [0xD83D, 0xDE00 :: 16 word])) = str ''6EC6''
   \<and> surrogatePairValue 0xD83D 0xDE00 = 0x1F600
   \<and> hex4 (specCRC [surrogatePairValue 0xD83D 0xDE00]) = str ''E1F0''
   \<and> calculateCRC16 [0xD83D, 0xDE00] \<noteq> hex4 (specCRC (map unat [0xD83D, 0xDE00 :: 16 word]))
   \<and> calculateCRC16 [0xD83D, 0xDE00] \<noteq> hex4 (specCRC [surrogatePairValue 0xD83D 0xDE00])"
proof -
  have v: "surrogatePairValue 0xD83D 0xDE00 = 0x1F600"
    by (simp add: surrogatePairValue_def)
  have a: "calculateCRC16 [0xD83D, 0xDE00] = str ''060E''"
    by (simp add: calculateCRC16_def isHighSurrogate_def isLowSurrogate_def word_eval
        padStart_def toUpperCaseAscii_def numberToString_def digitsRadix.simps digitChar_def
        str_def)
  have b: "hex4 (specCRC (map unat [0xD83D, 0xDE00 :: 16 word])) = str ''6EC6''"
    by (simp only: specCRC_code_units_D83D_DE00 hex4_values)
  have c: "hex4 (specCRC [surrogatePairValue 0xD83D 0xDE00]) = str ''E1F0''"
    by (simp only: v specCRC_code_point_1F600 hex4_values)
  have d: "str ''060E'' \<noteq> str ''6EC6''" "str ''060E'' \<noteq> str ''E1F0''"
    by (simp_all add: str_def)
  from a b c d v show ?thesis by (simp only: simp_thms)
qed

text \<open>
  C3, amended. \<open>#calculateCRC16\<close> is a total function from strings to strings: it has no
  failing branch, the empty string included. For every string its result is the
  four-character, upper-case, zero-padded hexadecimal rendering of the value computed as the
  specification words it (start at \<open>0xFFFF\<close>; per character XOR in \<open>code << 8\<close>, then eight
  rounds of shift, XOR with \<open>0x1021\<close> when bit 15 was set, and mask to 16 bits; no final
  XOR) over the code units of the string in order, a low surrogate directly after a high
  surrogate left out. So for every string without a surrogate pair it is that value over
  all code units of the string. The result has four characters, all among \<open>0-9A-F\<close>, and
  the empty string gives \<open>"FFFF"\<close>.
\<close>

theorem calculateCRC16_matches_spec:
  "calculateCRC16 s = hex4 (specCRC (readCodes s))
   \<and> (\<not> hasSurrogatePair s \<longrightarrow> calculateCRC16 s = hex4 (specCRC (map unat s)))
   \<and> length (calculateCRC16 s) = 4
   \<and> set (calculateCRC16 s) \<subseteq> set (str ''0123456789ABCDEF'')
   \<and> specCRC [] = 0xFFFF
   \<and> calculateCRC16 [] = str ''FFFF''"
proof (intro conjI impI)
  show "calculateCRC16 s = hex4 (specCRC (readCodes s))"
    by (rule calculateCRC16_hex4)
  show "calculateCRC16 s = hex4 (specCRC (map unat s))" if "\<not> hasSurrogatePair s"
    using that by (simp add: calculateCRC16_hex4 readCodes_no_pair)
  show "length (calculateCRC16 s) = 4"
    by (rule length_calculateCRC16)
  show "set (calculateCRC16 s) \<subseteq> set (str ''0123456789ABCDEF'')"
    unfolding calculateCRC16_hex4 by (rule hex4_chars)
  show "specCRC [] = 0xFFFF"
    by (simp add: specCRC_def)
  show "calculateCRC16 [] = str ''FFFF''"
    by (simp add: calculateCRC16_hex4 specCRC_def hex4_def hexDigitUpper_def str_def)
qed

theorem calculateCRC16_matches_spec_witness:
  "\<not> hasSurrogatePair (str ''AB'')
   \<and> calculateCRC16 (str ''AB'') = hex4 (specCRC [65, 66])
   \<and> calculateCRC16 [0xD83D, 0xDE00] = hex4 (specCRC [0xD83D])
   \<and> length (calculateCRC16 (str ''AB'')) = 4"
proof -
  have h: "\<not> hasSurrogatePair (str ''AB'')"
    by (simp add: str_def)
  have m: "map unat (str ''AB'') = [65, 66]"
    by (simp add: str_def)
  have r: "readCodes [0xD83D, 0xDE00] = [0xD83D]"
    by simp
  note t = calculateCRC16_matches_spec [of "str ''AB''"]
  note t' = calculateCRC16_matches_spec [of "[0xD83D, 0xDE00]"]
  from t [THEN conjunct2, THEN conjunct1] h
  have "calculateCRC16 (str ''AB'') = hex4 (specCRC (map unat (str ''AB'')))"
    by (rule mp)
  with m have e: "calculateCRC16 (str ''AB'') = hex4 (specCRC [65, 66])" by (simp only:)
  from t' [THEN conjunct1] r
  have p: "calculateCRC16 [0xD83D, 0xDE00] = hex4 (specCRC [0xD83D])" by (simp only:)
  from t have l: "length (calculateCRC16 (str ''AB'')) = 4" by blast
  from h e p l show ?thesis by (intro conjI)
qed

text \<open>
  C4. For every tag and every value of 1 to 99 characters, \<open>#buildTLV\<close> returns the tag,
  then the length as two zero-padded decimal digits, then the value; and
  \<open>buildTLV("01", "2543663452")\<close> is \<open>"01102543663452"\<close>.
\<close>

theorem buildTLV_in_range:
  "(1 \<le> length v \<and> length v \<le> 99 \<longrightarrow>
      buildTLV tag (Some v) = Inr (tag @ twoDigits (length v) @ v))
   \<and> buildTLV (str ''01'') (Some (str ''2543663452'')) = Inr (str ''01102543663452'')"
proof (intro conjI impI)
  assume "1 \<le> length v \<and> length v \<le> 99"
  then show "buildTLV tag (Some v) = Inr (tag @ twoDigits (length v) @ v)"
    by (auto simp: buildTLV_Some)
next
  show "buildTLV (str ''01'') (Some (str ''2543663452'')) = Inr (str ''01102543663452'')"
    by (simp add: buildTLV_Some twoDigits_def str_def)
qed

theorem buildTLV_in_range_witness:
  "1 \<le> length (str ''50000'') \<and> length (str ''50000'') \<le> 99
   \<and> buildTLV (str ''54'') (Some (str ''50000'')) = Inr (str ''540550000'')"
proof -
  have h: "1 \<le> length (str ''50000'') \<and> length (str ''50000'') \<le> 99"
    by (simp add: str_def)
  from buildTLV_in_range [of "str ''50000''" "str ''54''"] h
  have "buildTLV (str ''54'') (Some (str ''50000'')) =
      Inr (str ''54'' @ twoDigits (length (str ''50000'')) @ str ''50000'')"
    by blast
  then show ?thesis using h by (simp add: twoDigits_def str_def)
qed

subsection \<open>The payload composer\<close>

lemma generateQR_eq:
  "generateQR q =
     bind (getMerchantAccountInfo q) (\<lambda>m.
     bind (getTransactionAmount q) (\<lambda>a.
     bind (getAdditionalData q) (\<lambda>d.
       Inr (specBody (getPointOfInitiation q) m a d
            @ calculateCRC16 (specBody (getPointOfInitiation q) m a d)))))"
  by (simp add: generateQR_def specBody_def Let_def PAYLOAD_FORMAT_def CURRENCY_def COUNTRY_def
      CRC_ID_def)

lemma generateQR_Inr_iff:
  "(generateQR q = Inr P) =
     (\<exists>m a d. getMerchantAccountInfo q = Inr m \<and> getTransactionAmount q = Inr a
        \<and> getAdditionalData q = Inr d
        \<and> P = specBody (getPointOfInitiation q) m a d
               @ calculateCRC16 (specBody (getPointOfInitiation q) m a d))"
  by (auto simp: generateQR_eq bind_eq_Inr)

lemma generateQR_Inl_iff:
  "(generateQR q = Inl e) =
     (getMerchantAccountInfo q = Inl e
      \<or> (\<exists>m. getMerchantAccountInfo q = Inr m \<and> getTransactionAmount q = Inl e)
      \<or> (\<exists>m a. getMerchantAccountInfo q = Inr m \<and> getTransactionAmount q = Inr a
            \<and> getAdditionalData q = Inl e))"
  by (auto simp: generateQR_eq bind_eq_Inl)

lemmas sample_eval =
  constructor_def generateBillNumber_def getPointOfInitiation_def getMerchantInfo_def
  getServiceType_def getMerchantAccountInfo_def getTransactionAmount_def getAdditionalData_def
  buildTLV_Some buildTLV_None formatLength_Some formatLength_None concatOperand_def truthy_def
  twoDigits_def toUpperCaseAscii_def padStart_def numberToString_def digitsRadix.simps
  digitChar_def replicate_numeral str_def constants

lemma exampleStatic_segments:
  "initType exampleStatic = str ''STATIC''"
  "getMerchantAccountInfo exampleStatic =
     Inr (str ''38540010A00000072701240006970407011025436634520208QRIBFTTC'')"
  "getTransactionAmount exampleStatic = Inr []"
  "getAdditionalData exampleStatic = Inr []"
  by (simp_all add: exampleStatic_def sample_eval)

lemma exampleDynamic_segments:
  "initType exampleDynamic = str ''DYNAMIC''"
  "getMerchantAccountInfo exampleDynamic =
     Inr (str ''38540010A00000072701240006970407011025436634520208QRIBFTTA'')"
  "getTransactionAmount exampleDynamic = Inr (str ''540550000'')"
  "getAdditionalData exampleDynamic = Inr (str ''62270109NAPAS00420810Thanh toan'')"
  by (simp_all add: exampleDynamic_def sample_eval)

text \<open>
  C1. Whenever \<open>generateQR()\<close> returns, it returns exactly \<open>"000201"\<close>, the point of
  initiation (\<open>"010211"\<close> when the initiation type is \<open>"STATIC"\<close>, else \<open>"010212"\<close>), the
  merchant account info, \<open>"5303704"\<close>, the amount TLV (possibly empty), \<open>"5802VN"\<close>, the
  additional data TLV (possibly empty), the literal \<open>"6304"\<close> and the four characters of
  the CRC16 of everything before them, in this order; it returns exactly when the three
  builders return.
\<close>

theorem generateQR_layout:
  "(generateQR q = Inr P) =
     (\<exists>m a d. getMerchantAccountInfo q = Inr m \<and> getTransactionAmount q = Inr a
        \<and> getAdditionalData q = Inr d
        \<and> P = str ''000201''
               @ (if initType q = str ''STATIC'' then str ''010211'' else str ''010212'')
               @ m @ str ''5303704'' @ a @ str ''5802VN'' @ d @ str ''6304''
               @ calculateCRC16
                   (str ''000201''
                    @ (if initType q = str ''STATIC'' then str ''010211'' else str ''010212'')
                    @ m @ str ''5303704'' @ a @ str ''5802VN'' @ d @ str ''6304'')
        \<and> length (calculateCRC16
                   (str ''000201''
                    @ (if initType q = str ''STATIC'' then str ''010211'' else str ''010212'')
                    @ m @ str ''5303704'' @ a @ str ''5802VN'' @ d @ str ''6304'')) = 4)"
  unfolding generateQR_Inr_iff length_calculateCRC16
  by (simp add: specBody_def getPointOfInitiation_def PIM_STATIC_def PIM_DYNAMIC_def)

theorem generateQR_layout_witness:
  "generateQR exampleStatic =
     Inr (str ''00020101021138540010A00000072701240006970407011025436634520208QRIBFTTC53037045802VN6304''
          @ calculateCRC16 (str ''00020101021138540010A00000072701240006970407011025436634520208QRIBFTTC53037045802VN6304''))"
  unfolding generateQR_layout exampleStatic_segments
  by (simp add: str_def length_calculateCRC16)

lemma DYNAMIC_neq_STATIC [simp]:
  "str ''DYNAMIC'' \<noteq> str ''STATIC''" "str ''STATIC'' \<noteq> str ''DYNAMIC''"
  by (simp_all add: str_def)

lemma generateQR_exampleDynamic:
  "generateQR exampleDynamic = Inr (exampleDynamicBody @ calculateCRC16 exampleDynamicBody)"
  unfolding generateQR_Inr_iff exampleDynamic_segments
  by (simp add: specBody_def getPointOfInitiation_def exampleDynamic_segments PIM_DYNAMIC_def
      exampleDynamicBody_def str_def)

lemma getComponents_Inr_iff:
  "(getComponents q = Inr c) =
     (\<exists>m a d. getMerchantAccountInfo q = Inr m \<and> getTransactionAmount q = Inr a
        \<and> getAdditionalData q = Inr d
        \<and> c = \<lparr> payloadFormat = PAYLOAD_FORMAT, pointOfInitiation = getPointOfInitiation q,
                merchantAccount = m, currency = CURRENCY, c_amount = a, country = COUNTRY,
                additionalData = d, c_billNumber = billNumber q \<rparr>)"
  by (auto simp: getComponents_def bind_eq_Inr)

lemma getComponents_Inl_iff:
  "(getComponents q = Inl e) =
     (getMerchantAccountInfo q = Inl e
      \<or> (\<exists>m. getMerchantAccountInfo q = Inr m \<and> getTransactionAmount q = Inl e)
      \<or> (\<exists>m a. getMerchantAccountInfo q = Inr m \<and> getTransactionAmount q = Inr a
            \<and> getAdditionalData q = Inl e))"
  by (auto simp: getComponents_def bind_eq_Inl)

text \<open>
  C2. For every payload \<open>P\<close> that \<open>generateQR()\<close> returns, the CRC16 of \<open>P\<close> without its
  last four characters is those last four characters; the checksummed part ends with the
  checksum tag and length \<open>"6304"\<close>, so the checksum covers them and everything before
  them, and not itself.
\<close>

theorem generateQR_crc_roundtrip:
  assumes "generateQR q = Inr P"
  shows "4 \<le> length P
    \<and> calculateCRC16 (take (length P - 4) P) = drop (length P - 4) P
    \<and> (\<exists>pre. take (length P - 4) P = pre @ str ''6304'')"
proof -
  from assms obtain m a d where
    P: "P = specBody (getPointOfInitiation q) m a d
            @ calculateCRC16 (specBody (getPointOfInitiation q) m a d)"
    unfolding generateQR_Inr_iff by blast
  let ?body = "specBody (getPointOfInitiation q) m a d"
  have len: "length P - 4 = length ?body"
    by (simp add: P length_calculateCRC16)
  have "take (length P - 4) P = ?body" "drop (length P - 4) P = calculateCRC16 ?body"
    unfolding len by (simp_all add: P)
  moreover have "\<exists>pre. ?body = pre @ str ''6304''"
    by (simp add: specBody_def)
  moreover have "4 \<le> length P"
    by (simp add: P length_calculateCRC16)
  ultimately show ?thesis by simp
qed

theorem generateQR_crc_roundtrip_witness:
  "generateQR exampleDynamic = Inr (exampleDynamicBody @ calculateCRC16 exampleDynamicBody)
   \<and> calculateCRC16
        (take (length (exampleDynamicBody @ calculateCRC16 exampleDynamicBody) - 4)
           (exampleDynamicBody @ calculateCRC16 exampleDynamicBody))
     = drop (length (exampleDynamicBody @ calculateCRC16 exampleDynamicBody) - 4)
         (exampleDynamicBody @ calculateCRC16 exampleDynamicBody)"
  using generateQR_crc_roundtrip [OF generateQR_exampleDynamic] generateQR_exampleDynamic
  by blast

text \<open>
  C8. \<open>getComponents()\<close> agrees with \<open>generateQR()\<close>. When it returns a record, every
  labelled field is the segment that \<open>generateQR()\<close> concatenates at that place, and the
  fields in payload order, followed by \<open>"6304"\<close> and by the CRC16 of all of that (the
  fields and \<open>"6304"\<close>), are the payload. The two methods throw for the same instances,
  with the same exception.
\<close>

theorem getComponents_consistent:
  "(getComponents q = Inr c \<longrightarrow>
      payloadFormat c = str ''000201''
      \<and> pointOfInitiation c = getPointOfInitiation q
      \<and> getMerchantAccountInfo q = Inr (merchantAccount c)
      \<and> currency c = str ''5303704''
      \<and> getTransactionAmount q = Inr (c_amount c)
      \<and> country c = str ''5802VN''
      \<and> getAdditionalData q = Inr (additionalData c)
      \<and> c_billNumber c = billNumber q
      \<and> generateQR q =
          Inr ((payloadFormat c @ pointOfInitiation c @ merchantAccount c @ currency c
                @ c_amount c @ country c @ additionalData c @ str ''6304'')
               @ calculateCRC16
                   (payloadFormat c @ pointOfInitiation c @ merchantAccount c @ currency c
                    @ c_amount c @ country c @ additionalData c @ str ''6304'')))
   \<and> ((getComponents q = Inl e) = (generateQR q = Inl e))
   \<and> ((\<exists>c'. getComponents q = Inr c') = (\<exists>P. generateQR q = Inr P))"
proof (intro conjI impI)
  assume "getComponents q = Inr c"
  then obtain m a d where
    m: "getMerchantAccountInfo q = Inr m" and a: "getTransactionAmount q = Inr a"
    and d: "getAdditionalData q = Inr d"
    and c: "c = \<lparr> payloadFormat = PAYLOAD_FORMAT, pointOfInitiation = getPointOfInitiation q,
                merchantAccount = m, currency = CURRENCY, c_amount = a, country = COUNTRY,
                additionalData = d, c_billNumber = billNumber q \<rparr>"
    unfolding getComponents_Inr_iff by blast
  show "payloadFormat c = str ''000201''" by (simp add: c PAYLOAD_FORMAT_def)
  show "pointOfInitiation c = getPointOfInitiation q" by (simp add: c)
  show "getMerchantAccountInfo q = Inr (merchantAccount c)" by (simp add: c m)
  show "currency c = str ''5303704''" by (simp add: c CURRENCY_def)
  show "getTransactionAmount q = Inr (c_amount c)" by (simp add: c a)
  show "country c = str ''5802VN''" by (simp add: c COUNTRY_def)
  show "getAdditionalData q = Inr (additionalData c)" by (simp add: c d)
  show "c_billNumber c = billNumber q" by (simp add: c)
  show "generateQR q =
          Inr ((payloadFormat c @ pointOfInitiation c @ merchantAccount c @ currency c
                @ c_amount c @ country c @ additionalData c @ str ''6304'')
               @ calculateCRC16
                   (payloadFormat c @ pointOfInitiation c @ merchantAccount c @ currency c
                    @ c_amount c @ country c @ additionalData c @ str ''6304''))"
    by (simp add: generateQR_eq m a d c specBody_def PAYLOAD_FORMAT_def CURRENCY_def COUNTRY_def)
next
  show "(getComponents q = Inl e) = (generateQR q = Inl e)"
    by (simp only: getComponents_Inl_iff generateQR_Inl_iff)
next
  show "(\<exists>c'. getComponents q = Inr c') = (\<exists>P. generateQR q = Inr P)"
    unfolding getComponents_Inr_iff generateQR_Inr_iff by blast
qed

theorem getComponents_consistent_witness:
  "getComponents exampleDynamic =
     Inr \<lparr> payloadFormat = str ''000201'', pointOfInitiation = str ''010212'',
           merchantAccount = str ''38540010A00000072701240006970407011025436634520208QRIBFTTA'',
           currency = str ''5303704'', c_amount = str ''540550000'', country = str ''5802VN'',
           additionalData = str ''62270109NAPAS00420810Thanh toan'',
           c_billNumber = str ''NAPAS0042'' \<rparr>
   \<and> generateQR exampleDynamic =
       Inr ((str ''000201'' @ str ''010212''
             @ str ''38540010A00000072701240006970407011025436634520208QRIBFTTA''
             @ str ''5303704'' @ str ''540550000'' @ str ''5802VN''
             @ str ''62270109NAPAS00420810Thanh toan'' @ str ''6304'')
            @ calculateCRC16
                (str ''000201'' @ str ''010212''
                 @ str ''38540010A00000072701240006970407011025436634520208QRIBFTTA''
                 @ str ''5303704'' @ str ''540550000'' @ str ''5802VN''
                 @ str ''62270109NAPAS00420810Thanh toan'' @ str ''6304''))"
proof -
  let ?c = "\<lparr> payloadFormat = str ''000201'', pointOfInitiation = str ''010212'',
           merchantAccount = str ''38540010A00000072701240006970407011025436634520208QRIBFTTA'',
           currency = str ''5303704'', c_amount = str ''540550000'', country = str ''5802VN'',
           additionalData = str ''62270109NAPAS00420810Thanh toan'',
           c_billNumber = str ''NAPAS0042'' \<rparr>"
  have b: "billNumber exampleDynamic = str ''NAPAS0042''"
    by (simp add: exampleDynamic_def sample_eval)
  have g: "getComponents exampleDynamic = Inr ?c"
    unfolding getComponents_Inr_iff exampleDynamic_segments
    by (simp add: getPointOfInitiation_def exampleDynamic_segments b constants)
  from getComponents_consistent [of exampleDynamic ?c] g
  have "generateQR exampleDynamic =
          Inr ((payloadFormat ?c @ pointOfInitiation ?c @ merchantAccount ?c @ currency ?c
                @ c_amount ?c @ country ?c @ additionalData ?c @ str ''6304'')
               @ calculateCRC16
                   (payloadFormat ?c @ pointOfInitiation ?c @ merchantAccount ?c @ currency ?c
                    @ c_amount ?c @ country ?c @ additionalData ?c @ str ''6304''))"
    by blast
  then have "generateQR exampleDynamic =
       Inr ((str ''000201'' @ str ''010212''
             @ str ''38540010A00000072701240006970407011025436634520208QRIBFTTA''
             @ str ''5303704'' @ str ''540550000'' @ str ''5802VN''
             @ str ''62270109NAPAS00420810Thanh toan'' @ str ''6304'')
            @ calculateCRC16
                (str ''000201'' @ str ''010212''
                 @ str ''38540010A00000072701240006970407011025436634520208QRIBFTTA''
                 @ str ''5303704'' @ str ''540550000'' @ str ''5802VN''
                 @ str ''62270109NAPAS00420810Thanh toan'' @ str ''6304''))"
    by (simp only: QRGeneration.simps Components.simps)
  with g show ?thesis by (intro conjI)
qed

subsection \<open>Exceptions of the builders\<close>

lemma getMerchantAccountInfo_Inl_iff:
  "(getMerchantAccountInfo q = Inl e) =
     (buildTLV MERCHANT_ID (accNo q) = Inl e
      \<or> (\<exists>mi. getMerchantInfo q = Inr mi \<and> formatLength (Some mi) = Inl e)
      \<or> (\<exists>mi l. getMerchantInfo q = Inr mi \<and> formatLength (Some mi) = Inr l
            \<and> buildTLV DVCNTT_ID
                 (Some (GUID @ BENEFICIARY_ORG_ID @ l @ mi @ getServiceType q)) = Inl e))"
  by (auto simp: getMerchantAccountInfo_def getMerchantInfo_def Let_def bind_eq_Inl bind_eq_Inr)

lemma getAdditionalData_Inl_iff:
  "(getAdditionalData q = Inl e) =
     (initType q = str ''DYNAMIC''
      \<and> (buildTLV BILL_NUMBER_ID (Some (billNumber q)) = Inl e
         \<or> (\<exists>b. buildTLV BILL_NUMBER_ID (Some (billNumber q)) = Inr b
               \<and> buildTLV PURPOSE_ID (desc q) = Inl e)
         \<or> (\<exists>b p. buildTLV BILL_NUMBER_ID (Some (billNumber q)) = Inr b
               \<and> buildTLV PURPOSE_ID (desc q) = Inr p
               \<and> buildTLV ADDITIONAL_DATA_ID (Some (b @ p)) = Inl e)))"
  by (auto simp: getAdditionalData_def bind_eq_Inl)

lemma getTransactionAmount_Inl_iff:
  "(getTransactionAmount q = Inl e) =
     (initType q = str ''DYNAMIC'' \<and> truthy (amount q) \<and> buildTLV AMOUNT_ID (amount q) = Inl e)"
  by (auto simp: getTransactionAmount_def)

lemma longDescription_segments:
  "initType longDescription = str ''DYNAMIC''"
  "desc longDescription = Some (replicate 101 0x41)"
  "getMerchantAccountInfo longDescription =
     Inr (str ''38540010A00000072701240006970407011025436634520208QRIBFTTA'')"
  "getTransactionAmount longDescription = Inr (str ''540550000'')"
  "buildTLV BILL_NUMBER_ID (Some (billNumber longDescription)) = Inr (str ''0109NAPAS0042'')"
  by (simp_all add: longDescription_def sample_eval)

lemma emptyDescription_segments:
  "initType emptyDescription = str ''DYNAMIC''"
  "desc emptyDescription = Some []"
  "getMerchantAccountInfo emptyDescription =
     Inr (str ''38540010A00000072701240006970407011025436634520208QRIBFTTA'')"
  "getTransactionAmount emptyDescription = Inr (str ''540550000'')"
  "buildTLV BILL_NUMBER_ID (Some (billNumber emptyDescription)) = Inr (str ''0109NAPAS0042'')"
  by (simp_all add: emptyDescription_def sample_eval)

text \<open>
  C5. \<open>#formatLength\<close>, and with it \<open>#buildTLV\<close>, throws the length error exactly when the
  value has fewer than 1 or more than 99 characters, so for the empty string and for every
  string of 101 characters. \<open>#buildTLV\<close> throws what \<open>#formatLength\<close> throws. An exception
  of a call inside the merchant account info builder, the amount builder or the additional
  data builder is the exception of that builder, and an exception of a builder is the
  exception of \<open>generateQR()\<close>, which then returns no payload.
\<close>

theorem lengthOutOfRange_surfaces:
  "((\<exists>e. formatLength (Some s) = Inl e) = (length s < 1 \<or> 99 < length s))
   \<and> ((\<exists>e. buildTLV tag (Some s) = Inl e) = (length s < 1 \<or> 99 < length s))
   \<and> (length s < 1 \<or> 99 < length s \<longrightarrow>
        formatLength (Some s) = Inl (LengthOutOfRange (length s))
        \<and> buildTLV tag (Some s) = Inl (LengthOutOfRange (length s)))
   \<and> buildTLV tag (Some []) = Inl (LengthOutOfRange 0)
   \<and> (length s = 101 \<longrightarrow> buildTLV tag (Some s) = Inl (LengthOutOfRange 101))
   \<and> ((buildTLV tag v = Inl e) = (formatLength v = Inl e))
   \<and> (buildTLV MERCHANT_ID (accNo q) = Inl e \<longrightarrow> getMerchantAccountInfo q = Inl e)
   \<and> (getMerchantInfo q = Inr mi \<and> formatLength (Some mi) = Inl e \<longrightarrow>
        getMerchantAccountInfo q = Inl e)
   \<and> (getMerchantInfo q = Inr mi \<and> formatLength (Some mi) = Inr l
        \<and> buildTLV DVCNTT_ID (Some (GUID @ BENEFICIARY_ORG_ID @ l @ mi @ getServiceType q)) = Inl e
        \<longrightarrow> getMerchantAccountInfo q = Inl e)
   \<and> (initType q = str ''DYNAMIC'' \<and> truthy (amount q) \<and> buildTLV AMOUNT_ID (amount q) = Inl e
        \<longrightarrow> getTransactionAmount q = Inl e)
   \<and> (initType q = str ''DYNAMIC'' \<and> buildTLV BILL_NUMBER_ID (Some (billNumber q)) = Inl e
        \<longrightarrow> getAdditionalData q = Inl e)
   \<and> (initType q = str ''DYNAMIC'' \<and> buildTLV BILL_NUMBER_ID (Some (billNumber q)) = Inr b
        \<and> buildTLV PURPOSE_ID (desc q) = Inl e \<longrightarrow> getAdditionalData q = Inl e)
   \<and> (initType q = str ''DYNAMIC'' \<and> buildTLV BILL_NUMBER_ID (Some (billNumber q)) = Inr b
        \<and> buildTLV PURPOSE_ID (desc q) = Inr p
        \<and> buildTLV ADDITIONAL_DATA_ID (Some (b @ p)) = Inl e \<longrightarrow> getAdditionalData q = Inl e)
   \<and> (getMerchantAccountInfo q = Inl e \<longrightarrow> generateQR q = Inl e)
   \<and> (getMerchantAccountInfo q = Inr m \<and> getTransactionAmount q = Inl e \<longrightarrow>
        generateQR q = Inl e)
   \<and> (getMerchantAccountInfo q = Inr m \<and> getTransactionAmount q = Inr a
        \<and> getAdditionalData q = Inl e \<longrightarrow> generateQR q = Inl e)
   \<and> (generateQR q = Inl e \<longrightarrow> (\<forall>P. generateQR q \<noteq> Inr P))"
proof (intro conjI impI)
  show "(\<exists>e. formatLength (Some s) = Inl e) = (length s < 1 \<or> 99 < length s)"
    by (simp add: formatLength_Some)
  show "(\<exists>e. buildTLV tag (Some s) = Inl e) = (length s < 1 \<or> 99 < length s)"
    by (simp add: buildTLV_Some)
  show "formatLength (Some s) = Inl (LengthOutOfRange (length s))"
    if "length s < 1 \<or> 99 < length s"
    using that by (simp add: formatLength_Some)
  show "buildTLV tag (Some s) = Inl (LengthOutOfRange (length s))"
    if "length s < 1 \<or> 99 < length s"
    using that by (simp add: buildTLV_Some)
  show "buildTLV tag (Some []) = Inl (LengthOutOfRange 0)"
    by (simp add: buildTLV_Some)
  show "buildTLV tag (Some s) = Inl (LengthOutOfRange 101)" if "length s = 101"
    using that by (simp add: buildTLV_Some)
  show "(buildTLV tag v = Inl e) = (formatLength v = Inl e)"
    by (rule buildTLV_fails_iff)
  show "getMerchantAccountInfo q = Inl e" if "buildTLV MERCHANT_ID (accNo q) = Inl e"
    using that unfolding getMerchantAccountInfo_Inl_iff by blast
  show "getMerchantAccountInfo q = Inl e"
    if "getMerchantInfo q = Inr mi \<and> formatLength (Some mi) = Inl e"
    using that unfolding getMerchantAccountInfo_Inl_iff by blast
  show "getMerchantAccountInfo q = Inl e"
    if "getMerchantInfo q = Inr mi \<and> formatLength (Some mi) = Inr l
        \<and> buildTLV DVCNTT_ID (Some (GUID @ BENEFICIARY_ORG_ID @ l @ mi @ getServiceType q)) = Inl e"
    using that unfolding getMerchantAccountInfo_Inl_iff by blast
  show "getTransactionAmount q = Inl e"
    if "initType q = str ''DYNAMIC'' \<and> truthy (amount q) \<and> buildTLV AMOUNT_ID (amount q) = Inl e"
    using that unfolding getTransactionAmount_Inl_iff by blast
  show "getAdditionalData q = Inl e"
    if "initType q = str ''DYNAMIC'' \<and> buildTLV BILL_NUMBER_ID (Some (billNumber q)) = Inl e"
    using that unfolding getAdditionalData_Inl_iff by blast
  show "getAdditionalData q = Inl e"
    if "initType q = str ''DYNAMIC'' \<and> buildTLV BILL_NUMBER_ID (Some (billNumber q)) = Inr b
        \<and> buildTLV PURPOSE_ID (desc q) = Inl e"
    using that unfolding getAdditionalData_Inl_iff by blast
  show "getAdditionalData q = Inl e"
    if "initType q = str ''DYNAMIC'' \<and> buildTLV BILL_NUMBER_ID (Some (billNumber q)) = Inr b
        \<and> buildTLV PURPOSE_ID (desc q) = Inr p
        \<and> buildTLV ADDITIONAL_DATA_ID (Some (b @ p)) = Inl e"
    using that unfolding getAdditionalData_Inl_iff by blast
  show "generateQR q = Inl e" if "getMerchantAccountInfo q = Inl e"
    using that unfolding generateQR_Inl_iff by blast
  show "generateQR q = Inl e"
    if "getMerchantAccountInfo q = Inr m \<and> getTransactionAmount q = Inl e"
    using that unfolding generateQR_Inl_iff by blast
  show "generateQR q = Inl e"
    if "getMerchantAccountInfo q = Inr m \<and> getTransactionAmount q = Inr a
        \<and> getAdditionalData q = Inl e"
    using that unfolding generateQR_Inl_iff by blast
  show "\<forall>P. generateQR q \<noteq> Inr P" if "generateQR q = Inl e"
    using that by simp
qed

theorem lengthOutOfRange_surfaces_witness:
  "length (replicate 101 (0x41 :: 16 word)) = 101
   \<and> buildTLV PURPOSE_ID (Some (replicate 101 0x41)) = Inl (LengthOutOfRange 101)
   \<and> getAdditionalData longDescription = Inl (LengthOutOfRange 101)
   \<and> generateQR longDescription = Inl (LengthOutOfRange 101)"
proof -
  note t = lengthOutOfRange_surfaces
    [of "replicate 101 0x41" PURPOSE_ID "desc longDescription" "LengthOutOfRange 101"
        longDescription _ _ "str ''0109NAPAS0042''" _
        "str ''38540010A00000072701240006970407011025436634520208QRIBFTTA''"
        "str ''540550000''"]
  note long = t [THEN conjunct2, THEN conjunct2, THEN conjunct2, THEN conjunct2, THEN conjunct1]
  note purpose = t [THEN conjunct2, THEN conjunct2, THEN conjunct2, THEN conjunct2, THEN conjunct2, THEN conjunct2, THEN conjunct2, THEN conjunct2, THEN conjunct2, THEN conjunct2, THEN conjunct2, THEN conjunct1]
  note additional = t [THEN conjunct2, THEN conjunct2, THEN conjunct2, THEN conjunct2, THEN conjunct2, THEN conjunct2, THEN conjunct2, THEN conjunct2, THEN conjunct2, THEN conjunct2, THEN conjunct2, THEN conjunct2, THEN conjunct2, THEN conjunct2, THEN conjunct2, THEN conjunct1]
  have l: "length (replicate 101 (0x41 :: 16 word)) = 101" by simp
  from long l have p: "buildTLV PURPOSE_ID (Some (replicate 101 0x41)) = Inl (LengthOutOfRange 101)"
    by (rule mp)
  then have "buildTLV PURPOSE_ID (desc longDescription) = Inl (LengthOutOfRange 101)"
    by (simp only: longDescription_segments)
  with purpose longDescription_segments(1,5)
  have a: "getAdditionalData longDescription = Inl (LengthOutOfRange 101)"
    by blast
  with additional longDescription_segments(3,4)
  have "generateQR longDescription = Inl (LengthOutOfRange 101)"
    by blast
  with l p a show ?thesis by (intro conjI)
qed

text \<open>
  C7. The documentation of the constructor allows a description of length 0 for a dynamic
  code, but \<open>#getAdditionalData\<close> passes the description to \<open>#buildTLV\<close>, which rejects the
  empty string: for the dynamic instance with the empty description \<open>generateQR()\<close> throws
  the length error for length 0.
\<close>

theorem generateQR_empty_description:
  "initType emptyDescription = str ''DYNAMIC''
   \<and> desc emptyDescription = Some (str '''')
   \<and> getAdditionalData emptyDescription = Inl (LengthOutOfRange 0)
   \<and> generateQR emptyDescription = Inl (LengthOutOfRange 0)"
proof -
  have a: "getAdditionalData emptyDescription = Inl (LengthOutOfRange 0)"
    unfolding getAdditionalData_Inl_iff emptyDescription_segments
    by (simp add: buildTLV_Some)
  then have "generateQR emptyDescription = Inl (LengthOutOfRange 0)"
    unfolding generateQR_Inl_iff emptyDescription_segments by simp
  with a show ?thesis
    by (simp add: emptyDescription_segments str_def)
qed

subsection \<open>Optional segments\<close>

lemma twoDigits_not_Nil [simp]: "twoDigits n \<noteq> []"
  by (simp add: twoDigits_def)

lemma buildTLV_not_empty: "buildTLV tag v \<noteq> Inr []"
proof (cases v)
  case None
  then show ?thesis by (simp add: buildTLV_None)
next
  case (Some s)
  then show ?thesis by (simp add: buildTLV_Some)
qed

lemma getTransactionAmount_empty_iff:
  "(getTransactionAmount q = Inr []) =
     (initType q \<noteq> str ''DYNAMIC'' \<or> amount q = None \<or> amount q = Some [])"
  by (cases "amount q") (auto simp: getTransactionAmount_def truthy_def buildTLV_not_empty)

lemma getAdditionalData_empty_iff:
  "(getAdditionalData q = Inr []) = (initType q \<noteq> str ''DYNAMIC'')"
  by (auto simp: getAdditionalData_def bind_eq_Inr buildTLV_not_empty)

lemma getAdditionalData_Inr:
  assumes "initType q = str ''DYNAMIC''" and "getAdditionalData q = Inr d"
  shows "\<exists>ds. desc q = Some ds
    \<and> d = str ''62''
          @ twoDigits (length ((str ''01'' @ twoDigits (length (billNumber q)) @ billNumber q)
                               @ (str ''08'' @ twoDigits (length ds) @ ds)))
          @ ((str ''01'' @ twoDigits (length (billNumber q)) @ billNumber q)
             @ (str ''08'' @ twoDigits (length ds) @ ds))"
proof (cases "desc q")
  case None
  with assms show ?thesis
    by (simp add: getAdditionalData_def buildTLV_None bind_eq_Inr)
next
  case (Some ds)
  with assms show ?thesis
    by (auto simp: getAdditionalData_def buildTLV_Some bind_eq_Inr constants
        split: if_splits)
qed

text \<open>
  C6, as the claim states it, fails: the amount is a string, and \<open>this.amount\<close> is tested
  for truthiness, so the string \<open>"0"\<close> counts as present and the dynamic instance with
  amount \<open>"0"\<close> carries the amount TLV \<open>"54010"\<close>.
\<close>

theorem getTransactionAmount_zero_emitted:
  "initType zeroAmount = str ''DYNAMIC''
   \<and> amount zeroAmount = Some (str ''0'')
   \<and> getTransactionAmount zeroAmount = Inr (str ''54010'')
   \<and> str ''54010'' \<noteq> []"
  by (simp add: zeroAmount_def sample_eval)

text \<open>
  C6, amended. The amount contributes nothing exactly when the initiation type is not
  \<open>"DYNAMIC"\<close> or the amount is absent or the empty string; a dynamic instance with a
  non-empty amount of at most 99 characters carries the TLV \<open>"54"\<close>, length, amount, whatever
  the amount says. The additional data contributes nothing exactly when the initiation type
  is not \<open>"DYNAMIC"\<close>; when a dynamic instance has it, it is the TLV \<open>"62"\<close> around the bill
  number TLV \<open>"01"\<close> followed by the description TLV \<open>"08"\<close>.
\<close>

theorem optional_segments:
  "((getTransactionAmount q = Inr []) =
      (initType q \<noteq> str ''DYNAMIC'' \<or> amount q = None \<or> amount q = Some []))
   \<and> (initType q = str ''DYNAMIC'' \<and> amount q = Some a \<and> a \<noteq> [] \<and> length a \<le> 99 \<longrightarrow>
        getTransactionAmount q = Inr (str ''54'' @ twoDigits (length a) @ a))
   \<and> ((getAdditionalData q = Inr []) = (initType q \<noteq> str ''DYNAMIC''))
   \<and> (initType q = str ''DYNAMIC'' \<and> getAdditionalData q = Inr d \<longrightarrow>
        (\<exists>ds. desc q = Some ds
           \<and> d = str ''62''
                 @ twoDigits (length ((str ''01'' @ twoDigits (length (billNumber q)) @ billNumber q)
                                      @ (str ''08'' @ twoDigits (length ds) @ ds)))
                 @ ((str ''01'' @ twoDigits (length (billNumber q)) @ billNumber q)
                    @ (str ''08'' @ twoDigits (length ds) @ ds))))"
proof (intro conjI impI)
  show "(getTransactionAmount q = Inr []) =
      (initType q \<noteq> str ''DYNAMIC'' \<or> amount q = None \<or> amount q = Some [])"
    by (rule getTransactionAmount_empty_iff)
  show "getTransactionAmount q = Inr (str ''54'' @ twoDigits (length a) @ a)"
    if "initType q = str ''DYNAMIC'' \<and> amount q = Some a \<and> a \<noteq> [] \<and> length a \<le> 99"
    using that by (auto simp: getTransactionAmount_def truthy_def buildTLV_Some AMOUNT_ID_def)
  show "(getAdditionalData q = Inr []) = (initType q \<noteq> str ''DYNAMIC'')"
    by (rule getAdditionalData_empty_iff)
  show "\<exists>ds. desc q = Some ds
           \<and> d = str ''62''
                 @ twoDigits (length ((str ''01'' @ twoDigits (length (billNumber q)) @ billNumber q)
                                      @ (str ''08'' @ twoDigits (length ds) @ ds)))
                 @ ((str ''01'' @ twoDigits (length (billNumber q)) @ billNumber q)
                    @ (str ''08'' @ twoDigits (length ds) @ ds))"
    if "initType q = str ''DYNAMIC'' \<and> getAdditionalData q = Inr d"
    using that getAdditionalData_Inr [of q d] by blast
qed

theorem optional_segments_witness:
  "getTransactionAmount exampleDynamic = Inr (str ''540550000'')
   \<and> getTransactionAmount exampleStatic = Inr []
   \<and> getAdditionalData exampleStatic = Inr []"
proof -
  have d: "initType exampleDynamic = str ''DYNAMIC'' \<and> amount exampleDynamic = Some (str ''50000'')
      \<and> str ''50000'' \<noteq> [] \<and> length (str ''50000'') \<le> 99"
    by (simp add: exampleDynamic_def constructor_def toUpperCaseAscii_def str_def)
  have s: "initType exampleStatic \<noteq> str ''DYNAMIC''"
    by (simp add: exampleStatic_segments)
  note t1 = optional_segments [of exampleDynamic "str ''50000''"]
  note t2 = optional_segments [of exampleStatic]
  from t1 [THEN conjunct2, THEN conjunct1] d
  have "getTransactionAmount exampleDynamic =
      Inr (str ''54'' @ twoDigits (length (str ''50000'')) @ str ''50000'')"
    by (rule mp)
  then have a: "getTransactionAmount exampleDynamic = Inr (str ''540550000'')"
    by (simp add: twoDigits_def str_def)
  from t2 [THEN conjunct1] s have b: "getTransactionAmount exampleStatic = Inr []"
    by blast
  from t2 [THEN conjunct2, THEN conjunct2, THEN conjunct1] s
  have c: "getAdditionalData exampleStatic = Inr []"
    by blast
  from a b c show ?thesis by (intro conjI)
qed

subsection \<open>Bill number and initiation type\<close>

lemma decimal_digit_chars: "\<forall>k \<in> {0..<10}. isDecimalDigit (of_nat (48 + k))"
  by code_simp

lemma isDecimalDigit_offset: "k < 10 \<Longrightarrow> isDecimalDigit (of_nat (48 + k))"
  using decimal_digit_chars by simp

lemma fourDigits_digits: "n < 10000 \<Longrightarrow> list_all isDecimalDigit (fourDigits n)"
  unfolding fourDigits_def
  by (simp add: isDecimalDigit_offset del: of_nat_add)

lemma generateBillNumber_fourDigits:
  "r < 10000 \<Longrightarrow> generateBillNumber r = str ''NAPAS'' @ fourDigits r"
  by (simp add: generateBillNumber_def padStart4_decimal BILL_PREFIX_def)

text \<open>
  C9. \<open>randomInt(10000)\<close> returns an integer \<open>r\<close> with \<open>0 \<le> r < 10000\<close>. For every such
  value and all constructor arguments, the bill number of the new instance is \<open>"NAPAS"\<close>
  followed by exactly four decimal digits, the digits of \<open>r\<close> padded with zeros. The methods
  of the class are functions of the instance and assign no field, and \<open>getComponents()\<close>
  reports the bill number of the instance as it is.
\<close>

theorem billNumber_format:
  "(r < 10000 \<longrightarrow>
      billNumber (constructor up r b a i isA am d) = str ''NAPAS'' @ fourDigits r
      \<and> length (fourDigits r) = 4
      \<and> list_all isDecimalDigit (fourDigits r))
   \<and> (getComponents q = Inr c \<longrightarrow> c_billNumber c = billNumber q)"
proof (intro conjI impI)
  assume r: "r < 10000"
  then show "billNumber (constructor up r b a i isA am d) = str ''NAPAS'' @ fourDigits r"
    by (simp add: constructor_def generateBillNumber_fourDigits)
  show "length (fourDigits r) = 4"
    by (simp add: fourDigits_def)
  from r show "list_all isDecimalDigit (fourDigits r)"
    by (rule fourDigits_digits)
next
  assume "getComponents q = Inr c"
  then show "c_billNumber c = billNumber q"
    unfolding getComponents_Inr_iff by auto
qed

theorem billNumber_format_witness:
  "(7::nat) < 10000
   \<and> billNumber (constructor toUpperCaseAscii 7 (Some (str ''970407'')) (Some (str ''2543663452''))
        None False None None) = str ''NAPAS0007''
   \<and> list_all isDecimalDigit (str ''0007'')"
proof -
  have h: "(7::nat) < 10000" by simp
  have f: "fourDigits 7 = str ''0007''" by (simp add: fourDigits_def str_def)
  note t = billNumber_format [of 7 toUpperCaseAscii "Some (str ''970407'')"
      "Some (str ''2543663452'')" None False None None, THEN conjunct1, THEN mp, OF h]
  from t f have "billNumber (constructor toUpperCaseAscii 7 (Some (str ''970407''))
      (Some (str ''2543663452'')) None False None None) = str ''NAPAS'' @ str ''0007''"
    by (simp only:)
  then have a: "billNumber (constructor toUpperCaseAscii 7 (Some (str ''970407''))
      (Some (str ''2543663452'')) None False None None) = str ''NAPAS0007''"
    by (simp add: str_def)
  from t f have "list_all isDecimalDigit (str ''0007'')" by (simp only:)
  with h a show ?thesis by (intro conjI)
qed

text \<open>
  C10, as the claim states it, fails for the empty string: \<open>"".toUpperCase()\<close> is \<open>""\<close>,
  neither \<open>"STATIC"\<close> nor \<open>"DYNAMIC"\<close>, but it is falsy, so the constructor stores
  \<open>"STATIC"\<close> and the point of initiation is the static constant \<open>"010211"\<close>.
\<close>

theorem empty_initType_is_static:
  "toUpperCaseAscii (str '''') \<noteq> str ''STATIC''
   \<and> toUpperCaseAscii (str '''') \<noteq> str ''DYNAMIC''
   \<and> initType emptyInitType = str ''STATIC''
   \<and> getPointOfInitiation emptyInitType = str ''010211''"
  by (simp add: emptyInitType_def constructor_def getPointOfInitiation_def PIM_STATIC_def
      toUpperCaseAscii_def str_def)

text \<open>
  C10, amended. When the initiation type argument is a string whose upper-cased form is not
  empty and is neither \<open>"STATIC"\<close> nor \<open>"DYNAMIC"\<close>, the instance keeps that form, the point of
  initiation is the dynamic constant \<open>"010212"\<close>, and the amount and the additional data
  contribute nothing; so every payload that \<open>generateQR()\<close> returns for it is \<open>"000201"\<close>,
  \<open>"010212"\<close>, the merchant account info, \<open>"5303704"\<close>, \<open>"5802VN"\<close>, \<open>"6304"\<close> and the
  checksum, and it returns one whenever the merchant account info builder returns.
\<close>

theorem unknown_initType_hybrid:
  "up s \<noteq> [] \<and> up s \<noteq> str ''STATIC'' \<and> up s \<noteq> str ''DYNAMIC'' \<longrightarrow>
     initType (constructor up r b a (Some s) isA am d) = up s
     \<and> getPointOfInitiation (constructor up r b a (Some s) isA am d) = str ''010212''
     \<and> getTransactionAmount (constructor up r b a (Some s) isA am d) = Inr []
     \<and> getAdditionalData (constructor up r b a (Some s) isA am d) = Inr []
     \<and> ((generateQR (constructor up r b a (Some s) isA am d) = Inr P) =
         (\<exists>m. getMerchantAccountInfo (constructor up r b a (Some s) isA am d) = Inr m
            \<and> P = str ''000201'' @ str ''010212'' @ m @ str ''5303704'' @ str ''5802VN''
                   @ str ''6304''
                   @ calculateCRC16 (str ''000201'' @ str ''010212'' @ m @ str ''5303704''
                        @ str ''5802VN'' @ str ''6304'')))"
proof (intro impI)
  assume h: "up s \<noteq> [] \<and> up s \<noteq> str ''STATIC'' \<and> up s \<noteq> str ''DYNAMIC''"
  let ?q = "constructor up r b a (Some s) isA am d"
  from h have i: "initType ?q = up s" by (simp add: constructor_def)
  with h have p: "getPointOfInitiation ?q = str ''010212''"
    by (simp add: getPointOfInitiation_def PIM_DYNAMIC_def)
  from i h have ta: "getTransactionAmount ?q = Inr []"
    by (simp add: getTransactionAmount_empty_iff)
  from i h have ad: "getAdditionalData ?q = Inr []"
    by (simp add: getAdditionalData_empty_iff)
  have g: "(generateQR ?q = Inr P) =
         (\<exists>m. getMerchantAccountInfo ?q = Inr m
            \<and> P = str ''000201'' @ str ''010212'' @ m @ str ''5303704'' @ str ''5802VN''
                   @ str ''6304''
                   @ calculateCRC16 (str ''000201'' @ str ''010212'' @ m @ str ''5303704''
                        @ str ''5802VN'' @ str ''6304''))"
    unfolding generateQR_Inr_iff p ta ad by (simp add: specBody_def)
  from i p ta ad g show "initType ?q = up s
     \<and> getPointOfInitiation ?q = str ''010212''
     \<and> getTransactionAmount ?q = Inr []
     \<and> getAdditionalData ?q = Inr []
     \<and> ((generateQR ?q = Inr P) =
         (\<exists>m. getMerchantAccountInfo ?q = Inr m
            \<and> P = str ''000201'' @ str ''010212'' @ m @ str ''5303704'' @ str ''5802VN''
                   @ str ''6304''
                   @ calculateCRC16 (str ''000201'' @ str ''010212'' @ m @ str ''5303704''
                        @ str ''5802VN'' @ str ''6304'')))"
    by (intro conjI)
qed

theorem unknown_initType_hybrid_witness:
  "toUpperCaseAscii (str ''dynamicc'') = str ''DYNAMICC''
   \<and> initType misspeltInitType = str ''DYNAMICC''
   \<and> getPointOfInitiation misspeltInitType = str ''010212''
   \<and> getTransactionAmount misspeltInitType = Inr []
   \<and> getAdditionalData misspeltInitType = Inr []
   \<and> generateQR misspeltInitType =
       Inr (str ''00020101021238540010A00000072701240006970407011025436634520208QRIBFTTA53037045802VN6304''
            @ calculateCRC16 (str ''00020101021238540010A00000072701240006970407011025436634520208QRIBFTTA53037045802VN6304''))"
proof -
  have u: "toUpperCaseAscii (str ''dynamicc'') = str ''DYNAMICC''"
    by (simp add: toUpperCaseAscii_def str_def)
  have h: "toUpperCaseAscii (str ''dynamicc'') \<noteq> []
      \<and> toUpperCaseAscii (str ''dynamicc'') \<noteq> str ''STATIC''
      \<and> toUpperCaseAscii (str ''dynamicc'') \<noteq> str ''DYNAMIC''"
    unfolding u by (simp add: str_def)
  have m: "getMerchantAccountInfo misspeltInitType =
      Inr (str ''38540010A00000072701240006970407011025436634520208QRIBFTTA'')"
    by (simp add: misspeltInitType_def sample_eval)
  note t = unknown_initType_hybrid [of toUpperCaseAscii "str ''dynamicc''" 42
      "Some (str ''970407'')" "Some (str ''2543663452'')" True "Some (str ''50000'')"
      "Some (str ''Thanh toan'')", THEN mp, OF h, folded misspeltInitType_def]
  from t have i: "initType misspeltInitType = str ''DYNAMICC''"
    unfolding u by (rule conjunct1)
  note t2 = t [THEN conjunct2]
  from t2 have p: "getPointOfInitiation misspeltInitType = str ''010212''" by (rule conjunct1)
  note t3 = t2 [THEN conjunct2]
  from t3 have ta: "getTransactionAmount misspeltInitType = Inr []" by (rule conjunct1)
  note t4 = t3 [THEN conjunct2]
  from t4 have ad: "getAdditionalData misspeltInitType = Inr []" by (rule conjunct1)
  note t5 = t4 [THEN conjunct2]
  have g: "generateQR misspeltInitType =
       Inr (str ''00020101021238540010A00000072701240006970407011025436634520208QRIBFTTA53037045802VN6304''
            @ calculateCRC16 (str ''00020101021238540010A00000072701240006970407011025436634520208QRIBFTTA53037045802VN6304''))"
    unfolding t5 m by (simp add: str_def)
  from u i p ta ad g show ?thesis by (intro conjI)
qed

section \<open>Worked examples\<close>

text \<open>
  The parameters are those of CRC-16/CCITT-FALSE, whose check value for \<open>"123456789"\<close> is
  \<open>29B1\<close>.
\<close>

lemmas crc_eval =
  calculateCRC16_def crcChar_def charCodeAt0_def crcInner.simps crcRound_def polynomial_def
  isHighSurrogate_def isLowSurrogate_def padStart_def toUpperCaseAscii_def numberToString_def
  digitsRadix.simps digitChar_def str_def

lemma calculateCRC16_check_value: "calculateCRC16 (str ''123456789'') = str ''29B1''"
  by (simp add: crc_eval)

lemma calculateCRC16_exampleStatic:
  "calculateCRC16 (str ''00020101021138540010A00000072701240006970407011025436634520208QRIBFTTC53037045802VN6304'') = str ''B887''"
  by (simp add: crc_eval)

text \<open>The payload of the usage example of the source.\<close>

lemma generateQR_exampleStatic:
  "generateQR exampleStatic =
     Inr (str ''00020101021138540010A00000072701240006970407011025436634520208QRIBFTTC53037045802VN6304B887'')"
proof -
  have "specBody (getPointOfInitiation exampleStatic)
          (str ''38540010A00000072701240006970407011025436634520208QRIBFTTC'') [] []
        = str ''00020101021138540010A00000072701240006970407011025436634520208QRIBFTTC53037045802VN6304''"
    by (simp add: specBody_def getPointOfInitiation_def exampleStatic_segments PIM_STATIC_def
        str_def)
  then show ?thesis
    unfolding generateQR_Inr_iff exampleStatic_segments
    by (simp add: calculateCRC16_exampleStatic) (simp add: str_def)
qed

end
